theory Spec2Isabelle
  imports Main "HOL-Library.Word"
begin

unbundle bit_operations_syntax

section \<open>Python values used by \<open>scripts/nai_director_script.py\<close>\<close>

text \<open>
  Strings are lists of characters; a character stands for a code point below 256.
  Bytes are 8-bit words. A Python float is kept as the 64 bits of its IEEE-754 double.
\<close>

type_synonym byte = "8 word"
type_synonym pyfloat = "64 word"

text \<open>
  The values a JSON document decodes to and a request body is built from:
  \<open>None\<close>, booleans, unbounded integers, floats, strings, lists, and dictionaries
  with string keys. A dictionary is an association list in insertion order.
\<close>

datatype pyval =
    PNone
  | PBool bool
  | PInt int
  | PFloat pyfloat
  | PStr string
  | PList "pyval list"
  | PDict "(string \<times> pyval) list"

text \<open>
  What the numeric widgets of the panel deliver for steps, scale and seed: an integer,
  a float, or \<open>None\<close> (an emptied number field).
\<close>

datatype pynum = NNone | NInt int | NFloat pyfloat

datatype exn =
    TypeError string
  | ValueError string
  | OverflowError string

subsection \<open>Strings\<close>

definition digit_char :: "nat \<Rightarrow> char" where
  "digit_char d = char_of (48 + d)"

function str_nat :: "nat \<Rightarrow> string" where
  "str_nat n = (if n < 10 then [digit_char n] else str_nat (n div 10) @ [digit_char (n mod 10)])"
  by pat_completeness auto
termination
  by (relation "measure (\<lambda>n. n)") auto

declare str_nat.simps [simp del]

text \<open>\<open>str(i)\<close> of a Python int: decimal digits, with a minus sign when negative.\<close>

definition str_int :: "int \<Rightarrow> string" where
  "str_int i = (if i < 0 then CHR ''-'' # str_nat (nat (- i)) else str_nat (nat i))"

text \<open>\<open>str.isspace\<close> on the code points below 256.\<close>

definition py_isspace :: "char \<Rightarrow> bool" where
  "py_isspace c =
     (let n = (of_char c :: nat)
      in (9 \<le> n \<and> n \<le> 13) \<or> (28 \<le> n \<and> n \<le> 32) \<or> n = 133 \<or> n = 160)"

text \<open>\<open>s.strip()\<close>: whitespace removed at both ends.\<close>

definition strip :: "string \<Rightarrow> string" where
  "strip s = rev (dropWhile py_isspace (rev (dropWhile py_isspace s)))"

text \<open>\<open>s.startswith(p)\<close>.\<close>

definition startswith :: "string \<Rightarrow> string \<Rightarrow> bool" where
  "startswith s p = (take (length p) s = p)"

text \<open>\<open>p in s\<close> on strings: \<open>p\<close> occurs in \<open>s\<close> as a contiguous substring.\<close>

fun py_in :: "string \<Rightarrow> string \<Rightarrow> bool" where
  "py_in p [] = (p = [])"
| "py_in p (c # s) = (startswith (c # s) p \<or> py_in p s)"

text \<open>\<open>s.split(sep)\<close> for a one-character separator; the empty string gives \<open>['']\<close>.\<close>

fun split_on :: "char \<Rightarrow> string \<Rightarrow> string list" where
  "split_on sep [] = [[]]"
| "split_on sep (c # s) =
     (if c = sep then [] # split_on sep s
      else (case split_on sep s of
              [] \<Rightarrow> [[c]]
            | l # ls \<Rightarrow> (c # l) # ls))"

subsection \<open>Numeric conversions\<close>

text \<open>
  \<open>int(x)\<close> of a float truncates towards zero; it raises \<open>OverflowError\<close> on an
  infinity and \<open>ValueError\<close> on a NaN. The double is read from its bits: sign (bit 63),
  biased exponent (bits 52 to 62) and fraction (bits 0 to 51).
\<close>

definition float_sign :: "pyfloat \<Rightarrow> bool" where
  "float_sign f = bit f 63"

definition float_exponent :: "pyfloat \<Rightarrow> int" where
  "float_exponent f = uint (drop_bit 52 f AND 0x7FF)"

definition float_fraction :: "pyfloat \<Rightarrow> int" where
  "float_fraction f = uint (f AND 0xFFFFFFFFFFFFF)"

definition int_of_float :: "pyfloat \<Rightarrow> exn + int" where
  "int_of_float f =
     (let e = float_exponent f; m = float_fraction f
      in if e = 2047 then
           (if m = 0 then Inl (OverflowError ''cannot convert float infinity to integer'')
            else Inl (ValueError ''cannot convert float NaN to integer''))
         else
           (let mag = (if e = 0 then 0
                       else if 1075 \<le> e then (m + 2 ^ 52) * 2 ^ nat (e - 1075)
                       else (m + 2 ^ 52) div 2 ^ nat (1075 - e))
            in Inr (if float_sign f then - mag else mag)))"

text \<open>The number of binary digits of a non-negative integer (\<open>int.bit_length\<close>).\<close>

function bit_length :: "int \<Rightarrow> nat" where
  "bit_length n = (if n \<le> 0 then 0 else Suc (bit_length (n div 2)))"
  by pat_completeness auto
termination
  by (relation "measure nat") auto

declare bit_length.simps [simp del]

text \<open>
  \<open>float(i)\<close> of an int: the nearest double, ties to even; \<open>OverflowError\<close> when the
  rounded value needs an exponent above 1023.
\<close>

definition float_of_int :: "int \<Rightarrow> exn + pyfloat" where
  "float_of_int i =
     (if i = 0 then Inr 0
      else
        (let n = \<bar>i\<bar>;
             l = bit_length n;
             q = (if l \<le> 53 then n * 2 ^ (53 - l)
                  else (let sh = l - 53;
                            q0 = n div 2 ^ sh;
                            r = n mod 2 ^ sh;
                            h = 2 ^ (sh - 1)
                        in if h < r \<or> (r = h \<and> odd q0) then q0 + 1 else q0));
             e = (if q = 2 ^ 53 then l else l - 1);
             m = (if q = 2 ^ 53 then 2 ^ 52 else q)
         in if 1023 < e then Inl (OverflowError ''int too large to convert to float'')
            else Inr ((if i < 0 then push_bit 63 1 else 0)
                      OR push_bit 52 (word_of_nat (e + 1023))
                      OR word_of_int (m - 2 ^ 52))))"

text \<open>\<open>int(x)\<close> and \<open>float(x)\<close> on a widget value.\<close>

fun py_int :: "pynum \<Rightarrow> exn + int" where
  "py_int NNone =
     Inl (TypeError (''int() argument must be a string, a bytes-like object or a real number, not 'NoneType''
                     @ [CHR 0x27]))"
| "py_int (NInt i) = Inr i"
| "py_int (NFloat f) = int_of_float f"

fun py_float :: "pynum \<Rightarrow> exn + pyfloat" where
  "py_float NNone =
     Inl (TypeError (''float() argument must be a string or a real number, not 'NoneType''
                     @ [CHR 0x27]))"
| "py_float (NInt i) = float_of_int i"
| "py_float (NFloat f) = Inr f"

subsection \<open>Dictionaries\<close>

text \<open>
  \<open>d[k] = v\<close>: an existing key keeps its place and takes the new value, a new key goes
  to the end. \<open>d.update(e)\<close> stores the items of \<open>e\<close> in their order.
\<close>

fun dict_set :: "(string \<times> 'v) list \<Rightarrow> string \<Rightarrow> 'v \<Rightarrow> (string \<times> 'v) list" where
  "dict_set [] k v = [(k, v)]"
| "dict_set ((k', v') # d) k v = (if k' = k then (k, v) # d else (k', v') # dict_set d k v)"

fun dict_update :: "(string \<times> 'v) list \<Rightarrow> (string \<times> 'v) list \<Rightarrow> (string \<times> 'v) list" where
  "dict_update d [] = d"
| "dict_update d ((k, v) # e) = dict_update (dict_set d k v) e"

definition dict_get :: "(string \<times> 'v) list \<Rightarrow> string \<Rightarrow> 'v option" where
  "dict_get d k = map_of d k"

section \<open>The libraries the script calls\<close>

text \<open>
  A decoded image, as \<open>PIL.Image.open\<close> returns it over the byte stream it was given.
\<close>

datatype image = ImageFile "byte list"

text \<open>
  The library functions of \<open>json\<close>, \<open>base64\<close> and \<open>PIL\<close> are parameters of the model.
  A failing call gives \<open>Inl\<close> with the text of the exception it raises:
  \<open>json_loads\<close> is \<open>json.loads\<close> (\<open>Inl\<close>: a \<open>JSONDecodeError\<close>),
  \<open>json_dumps\<close> is \<open>json.dumps\<close> with \<open>indent=2\<close>,
  \<open>py_repr\<close> is \<open>str\<close> on floats, lists and dictionaries,
  \<open>b64decode\<close> is \<open>base64.b64decode\<close> and \<open>image_open\<close> is \<open>Image.open\<close> on the
  decoded bytes.
\<close>

record env =
  json_loads :: "string \<Rightarrow> string + pyval"
  json_dumps :: "pyval \<Rightarrow> string"
  py_repr :: "pyval \<Rightarrow> string"
  b64decode :: "string \<Rightarrow> string + byte list"
  image_open :: "byte list \<Rightarrow> string + image"

text \<open>\<open>str(v)\<close>, as an f-string formats a value.\<close>

fun py_str :: "env \<Rightarrow> pyval \<Rightarrow> string" where
  "py_str E PNone = ''None''"
| "py_str E (PBool b) = (if b then ''True'' else ''False'')"
| "py_str E (PInt i) = str_int i"
| "py_str E (PStr s) = s"
| "py_str E v = py_repr E v"

fun str_num :: "env \<Rightarrow> pynum \<Rightarrow> string" where
  "str_num E NNone = ''None''"
| "str_num E (NInt i) = str_int i"
| "str_num E (NFloat f) = py_repr E (PFloat f)"

text \<open>
  The response object of \<open>requests\<close>: the status code, the \<open>content-type\<close> header if
  the response has one, the body as text, and what \<open>response.json()\<close> gives
  (\<open>Inl\<close>: it raises a \<open>JSONDecodeError\<close>).
\<close>

record response =
  status_code :: int
  content_type_header :: "string option"
  resp_text :: string
  resp_json :: "string + pyval"

text \<open>
  What \<open>requests.post\<close> does once it is called: it raises a \<open>Timeout\<close>, another
  \<open>RequestException\<close>, or some other \<open>Exception\<close> (with its message and the
  traceback text), or it returns a response.
\<close>

datatype outcome =
    Timeout string
  | RequestException string
  | OtherException string string
  | Response response

text \<open>
  \<open>response.raise_for_status()\<close> raises an \<open>HTTPError\<close> exactly for the client and
  server error codes, 400 to 599.
\<close>

definition raises_for_status :: "response \<Rightarrow> bool" where
  "raises_for_status r = (400 \<le> status_code r \<and> status_code r < 600)"

record request =
  url :: string
  headers :: "(string \<times> string) list"
  json_body :: pyval
  timeout :: nat

text \<open>The effects of a call, in order: a line printed to the console, or the POST.\<close>

datatype event = Print string | Post request

type_synonym result = "image list option \<times> string"

section \<open>The API call helper\<close>

definition NAI_API_ENDPOINT :: string where
  "NAI_API_ENDPOINT = ''https://api.novelai.net/ai/generate-image''"

text \<open>Truth value of an optional string: \<open>None\<close> and the empty string are false.\<close>

definition truthy :: "string option \<Rightarrow> bool" where
  "truthy s = (case s of None \<Rightarrow> False | Some t \<Rightarrow> t \<noteq> [])"

text \<open>
  Parsing the Director Tools field. A blank field gives the empty dictionary. A
  \<open>JSONDecodeError\<close> and the \<open>ValueError\<close> raised for a value that is not a dictionary
  are both caught and give the message that is returned (\<open>Inl\<close>).
\<close>

definition parse_director :: "env \<Rightarrow> string option \<Rightarrow> string + (string \<times> pyval) list" where
  "parse_director E director_json_str =
     (case director_json_str of
        None \<Rightarrow> Inr []
      | Some t \<Rightarrow>
          if t \<noteq> [] \<and> strip t \<noteq> [] then
            (case json_loads E t of
               Inl e \<Rightarrow> Inl (''Error: Invalid JSON in Director Tools field: '' @ e)
             | Inr (PDict d) \<Rightarrow> Inr d
             | Inr _ \<Rightarrow> Inl (''Error: '' @ ''Director Tools JSON must decode to a dictionary (object).''))
          else Inr [])"

text \<open>
  The built-in entries of the nested parameters dictionary. The conversions
  \<open>int(steps)\<close>, \<open>float(scale)\<close> and \<open>int(seed)\<close> run in this order, and the first
  that raises ends the call with its exception: no handler encloses them.
\<close>

definition build_parameters ::
  "string \<Rightarrow> int \<Rightarrow> int \<Rightarrow> pynum \<Rightarrow> pynum \<Rightarrow> string \<Rightarrow> pynum \<Rightarrow> exn + (string \<times> pyval) list" where
  "build_parameters neg_prompt width height steps scale sampler seed =
     (case py_int steps of
        Inl x \<Rightarrow> Inl x
      | Inr steps_i \<Rightarrow>
          (case py_float scale of
             Inl x \<Rightarrow> Inl x
           | Inr scale_f \<Rightarrow>
               (case py_int seed of
                  Inl x \<Rightarrow> Inl x
                | Inr seed_i \<Rightarrow>
                    Inr [(''negative_prompt'', PStr neg_prompt),
                         (''width'', PInt width),
                         (''height'', PInt height),
                         (''steps'', PInt steps_i),
                         (''scale'', PFloat scale_f),
                         (''sampler'', PStr sampler),
                         (''seed'', PInt seed_i),
                         (''qualityToggle'', PBool True),
                         (''ucPreset'', PInt 0)])))"

text \<open>
  The request body: the fixed top-level fields and the parameters, into which a
  non-empty dictionary of overrides is merged.
\<close>

definition build_payload :: "string \<Rightarrow> (string \<times> pyval) list \<Rightarrow> (string \<times> pyval) list \<Rightarrow> pyval" where
  "build_payload prompt parameters director_params =
     PDict [(''input'', PStr prompt),
            (''model'', PStr ''nai-diffusion-3''),
            (''action'', PStr ''generate''),
            (''parameters'',
               PDict (if director_params \<noteq> [] then dict_update parameters director_params
                      else parameters))]"

text \<open>The first line that starts with \<open>data:\<close> gives the payload; \<open>None\<close> without one.\<close>

fun find_data :: "string list \<Rightarrow> string option" where
  "find_data [] = None"
| "find_data (line # lines) =
     (if startswith line ''data:'' then Some (strip (drop (length ''data:'') line))
      else find_data lines)"

text \<open>
  The event-stream branch. A missing or empty payload is reported with the status
  code; any exception of the two decoding steps is caught and reported with its text.
\<close>

definition event_stream :: "env \<Rightarrow> pynum \<Rightarrow> response \<Rightarrow> result \<times> event list" where
  "event_stream E seed r =
     (let lines = split_on (CHR 0x0A) (strip (resp_text r));
          b64_data = find_data lines
      in if \<not> truthy b64_data then
           ((None, ''Error: Could not parse image data from NovelAI stream. Status: ''
                   @ str_int (status_code r)),
            [Print (''Could not find base64 data in event-stream response:'' @ [CHR 0x0A]
                    @ resp_text r)])
         else
           (case b64decode E (the b64_data) of
              Inl decode_err \<Rightarrow>
                ((None, ''Error decoding image data from NovelAI: '' @ decode_err),
                 [Print (''Error decoding base64 data: '' @ decode_err)])
            | Inr img_data \<Rightarrow>
                (case image_open E img_data of
                   Inl decode_err \<Rightarrow>
                     ((None, ''Error decoding image data from NovelAI: '' @ decode_err),
                      [Print (''Error decoding base64 data: '' @ decode_err)])
                 | Inr img \<Rightarrow>
                     ((Some [img],
                       ''Successfully generated image via NovelAI.'' @ [CHR 0x0A]
                       @ ''Seed: '' @ str_num E seed @ '' (API might use/return a different one)''
                       @ [CHR 0x0A] @ ''(Check console logs for request details)''),
                      [Print ''Image received and decoded from event stream.'']))))"

text \<open>
  Handling of a response that passed \<open>raise_for_status\<close>: the branches on the declared
  content type, tried in the order zip, event stream, JSON, anything else.
\<close>

definition process_response :: "env \<Rightarrow> pynum \<Rightarrow> response \<Rightarrow> result \<times> event list" where
  "process_response E seed r =
     (let content_type = (case content_type_header r of None \<Rightarrow> [] | Some c \<Rightarrow> c)
      in if py_in ''application/zip'' content_type then
           ((None, ''Error: Zip response handling not implemented yet.''), [])
         else if py_in ''text/event-stream'' content_type
                 \<or> startswith (strip (resp_text r)) ''event:'' then
           event_stream E seed r
         else if py_in ''application/json'' content_type then
           (case resp_json r of
              Inr json_response \<Rightarrow>
                ((None, ''Error: JSON response handling not implemented yet (unknown structure).''), [])
            | Inl e \<Rightarrow>
                ((None, ''Error: Failed to decode JSON response. Status: ''
                        @ str_int (status_code r) @ '', Content: '' @ take 200 (resp_text r)), []))
         else
           ((None, ''Error: Unexpected Content-Type from NovelAI: '' @ content_type
                   @ ''. Status: '' @ str_int (status_code r)), []))"

text \<open>
  The handler of the \<open>HTTPError\<close>. The body's \<open>message\<close> entry is used when the body
  decodes to a dictionary (the whole body text when it has no such entry); when
  decoding or the lookup raises, the first 200 characters of the body are used.
\<close>

definition http_error :: "env \<Rightarrow> response \<Rightarrow> result \<times> event list" where
  "http_error E r =
     (let error_details =
            ''HTTP Error: '' @ str_int (status_code r)
            @ (case resp_json r of
                 Inr (PDict nai_error) \<Rightarrow>
                   [CHR 0x0A] @ ''NovelAI Message: ''
                   @ (case dict_get nai_error ''message'' of
                        Some m \<Rightarrow> py_str E m
                      | None \<Rightarrow> resp_text r)
               | _ \<Rightarrow> [CHR 0x0A] @ ''Response: '' @ take 200 (resp_text r))
      in ((None, ''NovelAI API Error: '' @ error_details),
          [Print (''NovelAI API HTTP Error: '' @ error_details)]))"

text \<open>
  \<open>call_novelai_api\<close>. The last argument is what the POST does if the call gets to
  it. The value is the returned pair, or the exception that leaves the function, and
  the effects in the order they happen. The copy \<open>log_payload\<close>, made by encoding
  the payload as JSON and decoding it again, is the payload itself for the values a
  payload is built from. A \<open>print\<close> does not fail.
\<close>

definition call_novelai_api ::
  "env \<Rightarrow> string option \<Rightarrow> string \<Rightarrow> string \<Rightarrow> int \<Rightarrow> int \<Rightarrow> pynum \<Rightarrow> pynum \<Rightarrow> string
     \<Rightarrow> pynum \<Rightarrow> string option \<Rightarrow> outcome \<Rightarrow> (exn + result) \<times> event list" where
  "call_novelai_api E api_key prompt neg_prompt width height steps scale sampler seed
       director_json_str net =
     (if \<not> truthy api_key then (Inr (None, ''Error: NovelAI API Key is missing.''), [])
      else
        (let hdrs = [(''Authorization'', ''Bearer '' @ the api_key),
                     (''Content-Type'', ''application/json''),
                     (''accept'', ''application/json'')]
         in case parse_director E director_json_str of
              Inl msg \<Rightarrow> (Inr (None, msg), [])
            | Inr director_params \<Rightarrow>
                (case build_parameters neg_prompt width height steps scale sampler seed of
                   Inl x \<Rightarrow> (Inl x, [])
                 | Inr parameters \<Rightarrow>
                     (let payload = build_payload prompt parameters director_params;
                          log_payload = payload;
                          sent = [Print ''--- Sending Payload to NovelAI ---'',
                                  Print (json_dumps E log_payload),
                                  Print ''---------------------------------'',
                                  Post \<lparr>url = NAI_API_ENDPOINT, headers = hdrs,
                                        json_body = payload, timeout = 180\<rparr>]
                      in case net of
                           Timeout e \<Rightarrow>
                             (Inr (None, ''Error: Request to NovelAI timed out.''),
                              sent @ [Print ''NovelAI request timed out.''])
                         | RequestException e \<Rightarrow>
                             (Inr (None, ''Error: Network error connecting to NovelAI API: '' @ e),
                              sent @ [Print (''Network error calling NovelAI API: '' @ e)])
                         | OtherException e tb \<Rightarrow>
                             (Inr (None, ''Unexpected Error: '' @ e),
                              sent @ [Print ''!!! Unexpected Error in call_novelai_api !!!'',
                                      Print tb])
                         | Response r \<Rightarrow>
                             (let status = Print (''NovelAI Response Status Code: ''
                                                  @ str_int (status_code r));
                                  (res, out) = (if raises_for_status r then http_error E r
                                                else process_response E seed r)
                              in (Inr res, sent @ [status] @ out))))))"

text \<open>The requests among the effects of a call, and the lines it printed.\<close>

fun requests_issued :: "event list \<Rightarrow> request list" where
  "requests_issued [] = []"
| "requests_issued (Print s # t) = requests_issued t"
| "requests_issued (Post q # t) = q # requests_issued t"


section \<open>The script's \<open>run\<close> method\<close>

text \<open>
  The fields of the host's processing object that the script reads or writes, and the
  \<open>Processed\<close> object it returns (images, seed, info text).
\<close>

record processing =
  p_prompt :: string
  p_negative_prompt :: string
  p_width :: int
  p_height :: int
  p_seed :: int
  extra_generation_params :: "string \<rightharpoonup> string"

record processed =
  proc_images :: "image list"
  proc_seed :: int
  proc_info :: string

text \<open>
  \<open>run\<close> gives the returned object (or the exception that leaves it), the processing
  object as the method leaves it, and the effects.
\<close>

definition run ::
  "env \<Rightarrow> processing \<Rightarrow> bool \<Rightarrow> string option \<Rightarrow> pynum \<Rightarrow> string \<Rightarrow> pynum \<Rightarrow> pynum
     \<Rightarrow> string option \<Rightarrow> outcome \<Rightarrow> (exn + processed) \<times> processing \<times> event list" where
  "run E p enabled api_key steps sampler scale seed director_tools_json net =
     (if \<not> enabled then
        (Inr \<lparr>proc_images = [], proc_seed = p_seed p, proc_info = []\<rparr>, p,
         [Print ''NovelAI script: Disabled, skipping.''])
      else
        (let start = Print ''NovelAI script: Enabled, attempting to override generation.'';
             (ret, out) = call_novelai_api E api_key (p_prompt p) (p_negative_prompt p)
                            (p_width p) (p_height p) steps scale sampler seed
                            director_tools_json net
         in case ret of
              Inl x \<Rightarrow> (Inl x, p, start # out)
            | Inr (images, info_text) \<Rightarrow>
                if images \<noteq> None \<and> the images \<noteq> [] then
                  (let received = Print (''NovelAI script: Successfully received ''
                                         @ str_int (int (length (the images))) @ '' image(s).'')
                   in case py_int seed of
                        Inl x \<Rightarrow> (Inl x, p, start # out @ [received])
                      | Inr seed_i \<Rightarrow>
                          (Inr \<lparr>proc_images = the images, proc_seed = seed_i,
                                proc_info = info_text\<rparr>, p, start # out @ [received]))
                else
                  (let p' = p\<lparr>extra_generation_params :=
                                (extra_generation_params p)(''NovelAI Error'' \<mapsto> info_text)\<rparr>
                   in (Inr \<lparr>proc_images = [], proc_seed = p_seed p',
                            proc_info = ''NovelAI Generation Failed: '' @ info_text\<rparr>, p',
                       start # out @ [Print (''NovelAI script: API call failed. Error: ''
                                             @ info_text)]))))"

section \<open>A concrete environment\<close>

text \<open>
  The results of the library functions on the inputs used in the examples below:
  two JSON documents that decode, one that does not, a base64 text that decodes to the
  bytes of a one-pixel PPM image, and one with incorrect padding.
\<close>

definition ppm_bytes :: "byte list" where
  "ppm_bytes = [80, 54, 10, 49, 32, 49, 10, 50, 53, 53, 10, 0, 0, 0]"

definition demo_loads :: "string \<Rightarrow> string + pyval" where
  "demo_loads s =
     (if s = [CHR ''{'', CHR 0x22] @ ''foo'' @ [CHR 0x22] @ '': 1}''
        then Inr (PDict [(''foo'', PInt 1)])
      else if s = [CHR ''{'', CHR 0x22] @ ''input'' @ [CHR 0x22] @ '': ''
                  @ [CHR 0x22] @ ''x'' @ [CHR 0x22] @ ''}''
        then Inr (PDict [(''input'', PStr ''x'')])
      else if s = ''[1,2]'' then Inr (PList [PInt 1, PInt 2])
      else if s = ''{bad json''
        then Inl ''Expecting property name enclosed in double quotes: line 1 column 2 (char 1)''
      else Inl ''Expecting value: line 1 column 1 (char 0)'')"

definition demo_b64decode :: "string \<Rightarrow> string + byte list" where
  "demo_b64decode s =
     (if s = ''UDYKMSAxCjI1NQoAAAA='' then Inr ppm_bytes else Inl ''Incorrect padding'')"

definition demo_image_open :: "byte list \<Rightarrow> string + image" where
  "demo_image_open bs =
     (if bs = ppm_bytes then Inr (ImageFile bs) else Inl ''cannot identify image file'')"

definition demo_env :: env where
  "demo_env = \<lparr>json_loads = demo_loads, json_dumps = (\<lambda>v. []), py_repr = (\<lambda>v. []),
                b64decode = demo_b64decode, image_open = demo_image_open\<rparr>"

text \<open>The float 6.0.\<close>

definition six :: pyfloat where
  "six = 0x4018000000000000"

section \<open>Kinds of response\<close>

text \<open>
  The declared content type of a response, the status range 200 to 299, and the three
  kinds of response the helper tells apart, with the precedence of its branches: zip
  before event stream before JSON. \<open>data_payload\<close> is the stripped remainder of the
  first line of the stripped body that starts with \<open>data:\<close>.
\<close>

definition declared_type :: "response \<Rightarrow> string" where
  "declared_type r = (case content_type_header r of None \<Rightarrow> [] | Some c \<Rightarrow> c)"

definition is_2xx :: "response \<Rightarrow> bool" where
  "is_2xx r = (200 \<le> status_code r \<and> status_code r < 300)"

definition is_zip :: "response \<Rightarrow> bool" where
  "is_zip r = py_in ''application/zip'' (declared_type r)"

definition is_event_stream :: "response \<Rightarrow> bool" where
  "is_event_stream r =
     (\<not> is_zip r
      \<and> (py_in ''text/event-stream'' (declared_type r)
         \<or> startswith (strip (resp_text r)) ''event:''))"

definition is_json :: "response \<Rightarrow> bool" where
  "is_json r =
     (\<not> is_zip r \<and> \<not> is_event_stream r \<and> py_in ''application/json'' (declared_type r))"

definition data_payload :: "response \<Rightarrow> string option" where
  "data_payload r = find_data (split_on (CHR 0x0A) (strip (resp_text r)))"

section \<open>Concrete inputs\<close>

text \<open>
  A call with fixed generation parameters, some responses, two override texts and a
  processing object, for the examples that follow the theorems.
\<close>

definition demo_call ::
  "string option \<Rightarrow> pynum \<Rightarrow> string option \<Rightarrow> outcome \<Rightarrow> (exn + result) \<times> event list" where
  "demo_call api_key seed director_json_str net =
     call_novelai_api demo_env api_key ''a cat'' ''blurry'' 512 768 (NInt 28) (NFloat six)
       ''k_euler'' seed director_json_str net"

definition no_json :: "string + pyval" where
  "no_json = Inl ''Expecting value: line 1 column 1 (char 0)''"

definition stream_response :: response where
  "stream_response =
     \<lparr>status_code = 200, content_type_header = Some ''text/event-stream'',
      resp_text = ''event: newImage'' @ [CHR 0x0A] @ ''data: UDYKMSAxCjI1NQoAAAA='' @ [CHR 0x0A],
      resp_json = no_json\<rparr>"

definition bad_stream_response :: response where
  "bad_stream_response =
     \<lparr>status_code = 200, content_type_header = Some ''text/event-stream'',
      resp_text = ''data:abc'', resp_json = no_json\<rparr>"

definition no_data_response :: response where
  "no_data_response =
     \<lparr>status_code = 200, content_type_header = Some ''text/event-stream'',
      resp_text = ''event: ping'', resp_json = no_json\<rparr>"

definition zip_response :: "int \<Rightarrow> response" where
  "zip_response code =
     \<lparr>status_code = code, content_type_header = Some ''application/zip'',
      resp_text = [], resp_json = no_json\<rparr>"


definition json_response :: "string \<Rightarrow> string + pyval \<Rightarrow> response" where
  "json_response body decoded =
     \<lparr>status_code = 200, content_type_header = Some ''application/json'',
      resp_text = body, resp_json = decoded\<rparr>"

definition demo_p :: processing where
  "demo_p = \<lparr>p_prompt = ''a cat'', p_negative_prompt = ''blurry'', p_width = 512,
             p_height = 768, p_seed = 7, extra_generation_params = Map.empty\<rparr>"

definition foo_blob :: string where
  "foo_blob = [CHR ''{'', CHR 0x22] @ ''foo'' @ [CHR 0x22] @ '': 1}''"

definition input_blob :: string where
  "input_blob = [CHR ''{'', CHR 0x22] @ ''input'' @ [CHR 0x22] @ '': ''
                @ [CHR 0x22] @ ''x'' @ [CHR 0x22] @ ''}''"

section \<open>Properties\<close>

subsection \<open>Substrings, effects and dictionaries\<close>

lemma py_in_prefix: "py_in p (p @ b)"
  by (cases "p @ b") (auto simp: startswith_def dest: arg_cong [where f = "take (length p)"])

lemma py_in_append: "py_in p (a @ p @ b)"
  by (induction a) (simp_all add: py_in_prefix)

lemma py_in_suffix: "py_in p (a @ p)"
  using py_in_append [of p a "[]"] by simp


lemma requests_issued_append:
  "requests_issued (a @ b) = requests_issued a @ requests_issued b"
  by (induction a rule: requests_issued.induct) simp_all


lemma requests_event_stream: "requests_issued (snd (event_stream E seed r)) = []"
  by (simp add: event_stream_def Let_def split: sum.splits)

lemma requests_process_response: "requests_issued (snd (process_response E seed r)) = []"
  by (simp add: process_response_def Let_def requests_event_stream split: sum.splits)

lemma requests_http_error: "requests_issued (snd (http_error E r)) = []"
  by (simp add: http_error_def Let_def)

lemma requests_call:
  "requests_issued (snd (call_novelai_api E api_key prompt neg_prompt width height steps scale
       sampler seed director_json_str net)) =
     (if truthy api_key then
        (case parse_director E director_json_str of
           Inl msg \<Rightarrow> []
         | Inr director_params \<Rightarrow>
             (case build_parameters neg_prompt width height steps scale sampler seed of
                Inl x \<Rightarrow> []
              | Inr parameters \<Rightarrow>
                  [\<lparr>url = NAI_API_ENDPOINT,
                    headers = [(''Authorization'', ''Bearer '' @ the api_key),
                               (''Content-Type'', ''application/json''),
                               (''accept'', ''application/json'')],
                    json_body = build_payload prompt parameters director_params,
                    timeout = 180\<rparr>]))
      else [])"
  by (simp add: call_novelai_api_def Let_def requests_issued_append requests_process_response
        requests_http_error split_beta split: sum.splits outcome.splits)

lemma result_call_response:
  assumes "requests_issued (snd (call_novelai_api E api_key prompt neg_prompt width height steps
             scale sampler seed director_json_str (Response r))) \<noteq> []"
  shows "fst (call_novelai_api E api_key prompt neg_prompt width height steps scale sampler seed
           director_json_str (Response r))
         = Inr (fst (if raises_for_status r then http_error E r
                     else process_response E seed r))"
  using assms
  by (simp add: call_novelai_api_def Let_def split_beta split: sum.splits if_splits)

lemma map_of_dict_set: "map_of (dict_set d k v) = (map_of d)(k \<mapsto> v)"
  by (induction d k v rule: dict_set.induct) auto

lemma dict_update_other:
  "k \<notin> fst ` set e \<Longrightarrow> map_of (dict_update d e) k = map_of d k"
  by (induction d e rule: dict_update.induct) (auto simp: map_of_dict_set)

lemma dict_update_member:
  "distinct (map fst e) \<Longrightarrow> (k, v) \<in> set e \<Longrightarrow> map_of (dict_update d e) k = Some v"
proof (induction d e rule: dict_update.induct)
  case (1 d)
  then show ?case by simp
next
  case (2 d k' v' e)
  show ?case
  proof (cases "(k, v) = (k', v')")
    case True
    with 2(2) have "k \<notin> fst ` set e" by auto
    then have "map_of (dict_update (dict_set d k' v') e) k = map_of (dict_set d k' v') k"
      by (rule dict_update_other)
    with True show ?thesis by (simp add: map_of_dict_set)
  next
    case False
    with 2 show ?thesis by auto
  qed
qed

lemma parse_director_dict:
  assumes "strip t \<noteq> []" and "json_loads E t = Inr (PDict d)"
  shows "parse_director E (Some t) = Inr d"
proof -
  from assms(1) have "t \<noteq> []" by (auto simp: strip_def)
  with assms show ?thesis by (simp add: parse_director_def)
qed

lemma process_response_event_stream:
  "is_event_stream r \<Longrightarrow> process_response E seed r = event_stream E seed r"
  by (auto simp: process_response_def is_event_stream_def is_zip_def declared_type_def)

lemma not_raises_2xx: "is_2xx r \<Longrightarrow> \<not> raises_for_status r"
  by (simp add: is_2xx_def raises_for_status_def)

subsection \<open>The shape of the result\<close>

text \<open>
  When the helper returns images, it returns exactly one and the seed converts to an
  integer; an exception that leaves the helper comes from the numeric conversions; a
  returned pair has no images or exactly one.
\<close>

lemma images_event_stream:
  "fst (event_stream E seed r) = (Some imgs, info) \<Longrightarrow> \<exists>img. imgs = [img]"
  by (auto simp: event_stream_def Let_def split: if_splits sum.splits)

lemma images_process_response:
  "fst (process_response E seed r) = (Some imgs, info) \<Longrightarrow> \<exists>img. imgs = [img]"
  by (auto simp: process_response_def Let_def split: if_splits sum.splits
           dest: images_event_stream)

lemma images_http_error: "fst (fst (http_error E r)) = None"
  by (simp add: http_error_def Let_def)

lemma call_success_shape:
  assumes "fst (call_novelai_api E api_key prompt neg_prompt width height steps scale sampler
             seed director_json_str net) = Inr (Some imgs, info)"
  shows "(\<exists>img. imgs = [img]) \<and> (\<exists>i. py_int seed = Inr i)"
proof -
  from assms obtain r ps where net: "net = Response r"
    and ps: "build_parameters neg_prompt width height steps scale sampler seed = Inr ps"
    and res: "fst (if raises_for_status r then http_error E r else process_response E seed r)
              = (Some imgs, info)"
    by (auto simp: call_novelai_api_def Let_def split_beta
             split: if_splits sum.splits outcome.splits)
  from ps have "\<exists>i. py_int seed = Inr i"
    by (auto simp: build_parameters_def split: sum.splits)
  moreover from res have "\<exists>img. imgs = [img]"
    using images_http_error [of E r]
    by (auto split: if_splits dest: images_process_response)
  ultimately show ?thesis by simp
qed

lemma call_raises_only_conversions:
  assumes "fst (call_novelai_api E api_key prompt neg_prompt width height steps scale sampler
             seed director_json_str net) = Inl x"
  shows "build_parameters neg_prompt width height steps scale sampler seed = Inl x"
  using assms
  by (auto simp: call_novelai_api_def Let_def split_beta
           split: if_splits sum.splits outcome.splits)

lemma call_well_formed:
  assumes "fst (call_novelai_api E api_key prompt neg_prompt width height steps scale sampler
             seed director_json_str net) = Inr (images, info)"
  shows "images = None \<or> (\<exists>img. images = Some [img])"
proof (cases images)
  case None
  then show ?thesis by simp
next
  case (Some imgs)
  with assms call_success_shape [of E api_key prompt neg_prompt width height steps scale sampler
      seed director_json_str net imgs info]
  show ?thesis by simp
qed

subsection \<open>The contract of the helper and of \<open>run\<close>\<close>

text \<open>
  C1. The helper is to return either a one-image list with a status text or no images
  with an error text, whatever it is called with, and never to let an exception out.
  The conversions \<open>int(steps)\<close>, \<open>float(scale)\<close> and \<open>int(seed)\<close> are made before the
  \<open>try\<close> block, so a seed field left empty (\<open>None\<close>) ends the call with a
  \<open>TypeError\<close>: with a key and no overrides, the call raises before anything is
  printed or sent.
\<close>

theorem seed_none_raises:
  "demo_call (Some ''key'') NNone None (Timeout ''timed out'')
   = (Inl (TypeError (''int() argument must be a string, a bytes-like object or a real number, ''
                      @ ''not '' @ [CHR 0x27] @ ''NoneType'' @ [CHR 0x27])),
      [])"
  by (simp add: demo_call_def call_novelai_api_def truthy_def parse_director_def
        build_parameters_def)

text \<open>
  C2, amended. When the override text is not blank and decodes to a non-empty dictionary
  (with distinct keys, as a dictionary has), the body of a request that is issued has
  the fixed top-level fields \<open>input\<close>, \<open>model\<close> and \<open>action\<close> unchanged, and under
  \<open>parameters\<close> every override key with the override's value; the keys that are not
  overridden keep their built-in values. So the overrides shadow built-in entries of the
  nested parameters only, never a top-level field of the body.
\<close>

theorem overrides_merged:
  assumes blob: "director_json_str = Some t" "strip t \<noteq> []"
    and parsed: "json_loads E t = Inr (PDict d)" "d \<noteq> []" "distinct (map fst d)"
    and issued: "q \<in> set (requests_issued (snd (call_novelai_api E api_key prompt neg_prompt
                   width height steps scale sampler seed director_json_str net)))"
  shows "\<exists>builtin ps.
           build_parameters neg_prompt width height steps scale sampler seed = Inr builtin
         \<and> json_body q = PDict [(''input'', PStr prompt),
                               (''model'', PStr ''nai-diffusion-3''),
                               (''action'', PStr ''generate''),
                               (''parameters'', PDict ps)]
         \<and> (\<forall>(k, v) \<in> set d. dict_get ps k = Some v)
         \<and> (\<forall>k. k \<notin> fst ` set d \<longrightarrow> dict_get ps k = dict_get builtin k)"
proof -
  have pd: "parse_director E director_json_str = Inr d"
    using blob parsed(1) by (simp add: parse_director_dict)
  obtain builtin where
    b: "build_parameters neg_prompt width height steps scale sampler seed = Inr builtin"
    and q: "json_body q = build_payload prompt builtin d"
  proof (cases "build_parameters neg_prompt width height steps scale sampler seed")
    case (Inl x)
    with pd have "requests_issued (snd (call_novelai_api E api_key prompt neg_prompt
                   width height steps scale sampler seed director_json_str net)) = []"
      by (simp add: requests_call)
    with issued show ?thesis by simp
  next
    case (Inr builtin)
    with pd have "requests_issued (snd (call_novelai_api E api_key prompt neg_prompt
                   width height steps scale sampler seed director_json_str net))
        = (if truthy api_key then
             [\<lparr>url = NAI_API_ENDPOINT,
               headers = [(''Authorization'', ''Bearer '' @ the api_key),
                          (''Content-Type'', ''application/json''),
                          (''accept'', ''application/json'')],
               json_body = build_payload prompt builtin d,
               timeout = 180\<rparr>]
           else [])"
      by (simp add: requests_call)
    with issued have "json_body q = build_payload prompt builtin d"
      by (auto split: if_splits)
    with Inr that show ?thesis by blast
  qed
  let ?ps = "dict_update builtin d"
  have "json_body q = PDict [(''input'', PStr prompt),
                               (''model'', PStr ''nai-diffusion-3''),
                               (''action'', PStr ''generate''),
                               (''parameters'', PDict ?ps)]"
    using q parsed(2) by (simp add: build_payload_def)
  moreover have "\<forall>(k, v) \<in> set d. dict_get ?ps k = Some v"
    using parsed(3) by (auto simp: dict_get_def dict_update_member)
  moreover have "\<forall>k. k \<notin> fst ` set d \<longrightarrow> dict_get ?ps k = dict_get builtin k"
    by (simp add: dict_get_def dict_update_other)
  ultimately show ?thesis using b by blast
qed

text \<open>The override \<open>{"foo": 1}\<close> appears under \<open>parameters\<close>.\<close>

theorem overrides_merged_witness:
  "strip foo_blob \<noteq> []
   \<and> json_loads demo_env foo_blob = Inr (PDict [(''foo'', PInt 1)])
   \<and> hd (requests_issued (snd (demo_call (Some ''key'') (NInt (- 1)) (Some foo_blob)
            (Timeout ''timed out''))))
       \<in> set (requests_issued (snd (demo_call (Some ''key'') (NInt (- 1)) (Some foo_blob)
            (Timeout ''timed out''))))
   \<and> (\<exists>builtin ps.
         build_parameters ''blurry'' 512 768 (NInt 28) (NFloat six) ''k_euler'' (NInt (- 1))
           = Inr builtin
       \<and> json_body (hd (requests_issued (snd (demo_call (Some ''key'') (NInt (- 1))
                      (Some foo_blob) (Timeout ''timed out'')))))
           = PDict [(''input'', PStr ''a cat''),
                    (''model'', PStr ''nai-diffusion-3''),
                    (''action'', PStr ''generate''),
                    (''parameters'', PDict ps)]
       \<and> dict_get ps ''foo'' = Some (PInt 1)
       \<and> dict_get ps ''steps'' = dict_get builtin ''steps'')"
proof -
  have h1: "strip foo_blob \<noteq> []"
    by code_simp
  have h2: "json_loads demo_env foo_blob = Inr (PDict [(''foo'', PInt 1)])"
    by code_simp
  have h3: "[(''foo'', PInt 1)] \<noteq> ([] :: (string \<times> pyval) list)"
    by simp
  have h4: "distinct (map fst [(''foo'', PInt 1)])"
    by simp
  have h5: "hd (requests_issued (snd (demo_call (Some ''key'') (NInt (- 1)) (Some foo_blob)
              (Timeout ''timed out''))))
            \<in> set (requests_issued (snd (demo_call (Some ''key'') (NInt (- 1)) (Some foo_blob)
              (Timeout ''timed out''))))"
    by code_simp
  from overrides_merged [OF refl h1 h2 h3 h4 h5 [unfolded demo_call_def]]
  show ?thesis
    using h1 h2 h5 by (auto simp: demo_call_def)
qed

text \<open>
  The override \<open>{"input": "x"}\<close> does not shadow the built-in field \<open>input\<close> of the
  body, which still holds the prompt; the entry is added under \<open>parameters\<close>.
\<close>

theorem overrides_top_level_counterexample:
  "json_loads demo_env input_blob = Inr (PDict [(''input'', PStr ''x'')])
   \<and> map json_body (requests_issued (snd (demo_call (Some ''key'') (NInt (- 1))
            (Some input_blob) (Timeout ''timed out''))))
     = [PDict [(''input'', PStr ''a cat''),
               (''model'', PStr ''nai-diffusion-3''),
               (''action'', PStr ''generate''),
               (''parameters'',
                  PDict [(''negative_prompt'', PStr ''blurry''),
                         (''width'', PInt 512),
                         (''height'', PInt 768),
                         (''steps'', PInt 28),
                         (''scale'', PFloat six),
                         (''sampler'', PStr ''k_euler''),
                         (''seed'', PInt (- 1)),
                         (''qualityToggle'', PBool True),
                         (''ucPreset'', PInt 0),
                         (''input'', PStr ''x'')])]]"
  by code_simp

text \<open>
  C3. When the API key is absent or empty, the call returns the missing-credential
  error with no images, and no request is issued (it has no effect at all).
\<close>

theorem missing_key_no_request:
  assumes "api_key = None \<or> api_key = Some []"
  shows "call_novelai_api E api_key prompt neg_prompt width height steps scale sampler seed
           director_json_str net
         = (Inr (None, ''Error: NovelAI API Key is missing.''), [])
       \<and> requests_issued (snd (call_novelai_api E api_key prompt neg_prompt width height steps
            scale sampler seed director_json_str net)) = []"
  using assms by (auto simp: call_novelai_api_def truthy_def)

theorem missing_key_no_request_witness:
  "(Some [] = (None :: string option) \<or> Some [] = Some ([] :: string))
   \<and> call_novelai_api demo_env (Some []) ''a cat'' ''blurry'' 512 768 (NInt 28) (NFloat six)
         ''k_euler'' (NInt (- 1)) None (Timeout [])
       = (Inr (None, ''Error: NovelAI API Key is missing.''), [])
   \<and> requests_issued (snd (call_novelai_api demo_env (Some []) ''a cat'' ''blurry'' 512 768
         (NInt 28) (NFloat six) ''k_euler'' (NInt (- 1)) None (Timeout []))) = []"
  using missing_key_no_request [of "Some []" demo_env "''a cat''" "''blurry''" 512 768
      "NInt 28" "NFloat six" "''k_euler''" "NInt (- 1)" None "Timeout []"]
  by simp

text \<open>
  C4, amended. When the API key is present and the override text is not blank: if the
  text is malformed JSON the call returns the parse error with the decoder's message,
  and if it decodes to anything but a dictionary it returns the validation error; the
  two messages differ, the result has no images, and the call has no effect, so no
  request is issued.
\<close>

theorem invalid_override_rejected:
  assumes key: "truthy api_key"
    and blob: "director_json_str = Some t" "strip t \<noteq> []"
  shows "(\<forall>e. json_loads E t = Inl e \<longrightarrow>
            call_novelai_api E api_key prompt neg_prompt width height steps scale sampler seed
              director_json_str net
            = (Inr (None, ''Error: Invalid JSON in Director Tools field: '' @ e), []))
       \<and> (\<forall>v. json_loads E t = Inr v \<longrightarrow> (\<forall>d. v \<noteq> PDict d) \<longrightarrow>
            call_novelai_api E api_key prompt neg_prompt width height steps scale sampler seed
              director_json_str net
            = (Inr (None, ''Error: Director Tools JSON must decode to a dictionary (object).''),
               []))
       \<and> (\<forall>e. ''Error: Invalid JSON in Director Tools field: '' @ e
              \<noteq> ''Error: Director Tools JSON must decode to a dictionary (object).'')"
proof -
  from blob(2) have "t \<noteq> []" by (auto simp: strip_def)
  with key blob show ?thesis
    by (auto simp: call_novelai_api_def parse_director_def split: pyval.splits)
qed

text \<open>The texts \<open>{bad json\<close> and \<open>[1,2]\<close>.\<close>

theorem invalid_override_rejected_witness:
  "truthy (Some ''key'')
   \<and> strip ''{bad json'' \<noteq> [] \<and> strip ''[1,2]'' \<noteq> []
   \<and> demo_call (Some ''key'') (NInt (- 1)) (Some ''{bad json'') (Timeout ''timed out'')
     = (Inr (None, ''Error: Invalid JSON in Director Tools field: ''
                   @ ''Expecting property name enclosed in double quotes: line 1 column 2 (char 1)''),
        [])
   \<and> demo_call (Some ''key'') (NInt (- 1)) (Some ''[1,2]'') (Timeout ''timed out'')
     = (Inr (None, ''Error: Director Tools JSON must decode to a dictionary (object).''), [])"
proof -
  have key: "truthy (Some ''key'')"
    by code_simp
  have bad: "strip ''{bad json'' \<noteq> []" and list: "strip ''[1,2]'' \<noteq> []"
    by code_simp+
  have l1: "json_loads demo_env ''{bad json''
            = Inl ''Expecting property name enclosed in double quotes: line 1 column 2 (char 1)''"
    by code_simp
  have l2: "json_loads demo_env ''[1,2]'' = Inr (PList [PInt 1, PInt 2])"
    by code_simp
  from invalid_override_rejected [OF key refl bad, where E = demo_env]
       invalid_override_rejected [OF key refl list, where E = demo_env]
  show ?thesis
    using key bad list l1 l2 by (simp add: demo_call_def)
qed

text \<open>
  Without the guard on the key the statement fails: with an empty key and the malformed
  text \<open>{bad json\<close> the call returns the missing-key error, not a parse error.
\<close>

theorem invalid_override_counterexample:
  "strip ''{bad json'' \<noteq> []
   \<and> json_loads demo_env ''{bad json''
     = Inl ''Expecting property name enclosed in double quotes: line 1 column 2 (char 1)''
   \<and> demo_call (Some []) (NInt (- 1)) (Some ''{bad json'') (Timeout ''timed out'')
     = (Inr (None, ''Error: NovelAI API Key is missing.''), [])"
  by code_simp

text \<open>
  C5. For a response with a status from 200 to 299 that the helper treats as an event
  stream (no zip content type, and either an event-stream content type or a body that
  starts with \<open>event:\<close>), whose first \<open>data:\<close> line carries a non-empty payload that
  base64-decodes to bytes which open as an image, the result is exactly that one image
  and the status text.
\<close>

theorem event_stream_one_image:
  assumes issued: "requests_issued (snd (call_novelai_api E api_key prompt neg_prompt width
                     height steps scale sampler seed director_json_str (Response r))) \<noteq> []"
    and ok: "is_2xx r"
    and stream: "is_event_stream r"
    and payload: "data_payload r = Some payload" "payload \<noteq> []"
    and valid: "b64decode E payload = Inr img_data" "image_open E img_data = Inr img"
  shows "fst (call_novelai_api E api_key prompt neg_prompt width height steps scale sampler seed
           director_json_str (Response r))
         = Inr (Some [img],
                ''Successfully generated image via NovelAI.'' @ [CHR 0x0A]
                @ ''Seed: '' @ str_num E seed @ '' (API might use/return a different one)''
                @ [CHR 0x0A] @ ''(Check console logs for request details)'')"
proof -
  have "fst (event_stream E seed r)
        = (Some [img],
           ''Successfully generated image via NovelAI.'' @ [CHR 0x0A]
           @ ''Seed: '' @ str_num E seed @ '' (API might use/return a different one)''
           @ [CHR 0x0A] @ ''(Check console logs for request details)'')"
    using payload valid by (simp add: event_stream_def data_payload_def truthy_def)
  with issued ok stream show ?thesis
    by (simp add: result_call_response not_raises_2xx process_response_event_stream)
qed

text \<open>An event stream carrying the one-pixel image.\<close>

theorem event_stream_one_image_witness:
  "requests_issued (snd (demo_call (Some ''key'') (NInt (- 1)) None
      (Response stream_response))) \<noteq> []
   \<and> is_2xx stream_response \<and> is_event_stream stream_response
   \<and> data_payload stream_response = Some ''UDYKMSAxCjI1NQoAAAA=''
   \<and> b64decode demo_env ''UDYKMSAxCjI1NQoAAAA='' = Inr ppm_bytes
   \<and> image_open demo_env ppm_bytes = Inr (ImageFile ppm_bytes)
   \<and> fst (demo_call (Some ''key'') (NInt (- 1)) None (Response stream_response))
     = Inr (Some [ImageFile ppm_bytes],
            ''Successfully generated image via NovelAI.'' @ [CHR 0x0A]
            @ ''Seed: -1 (API might use/return a different one)''
            @ [CHR 0x0A] @ ''(Check console logs for request details)'')"
proof -
  have h1: "requests_issued (snd (demo_call (Some ''key'') (NInt (- 1)) None
              (Response stream_response))) \<noteq> []"
    by code_simp
  have h2: "is_2xx stream_response" and h3: "is_event_stream stream_response"
    by code_simp+
  have h4: "data_payload stream_response = Some ''UDYKMSAxCjI1NQoAAAA=''"
    by code_simp
  have h5: "''UDYKMSAxCjI1NQoAAAA='' \<noteq> []"
    by simp
  have h6: "b64decode demo_env ''UDYKMSAxCjI1NQoAAAA='' = Inr ppm_bytes"
    by code_simp
  have h7: "image_open demo_env ppm_bytes = Inr (ImageFile ppm_bytes)"
    by code_simp
  have s: "str_num demo_env (NInt (- 1)) = ''-1''"
    by code_simp
  from event_stream_one_image [OF h1 [unfolded demo_call_def] h2 h3 h4 h5 h6 h7]
  show ?thesis
    using h1 h2 h3 h4 h6 h7 s by (simp add: demo_call_def)
qed

text \<open>
  C6, amended. For a response with a status from 200 to 299 treated as an event stream:
  when there is no \<open>data:\<close> line, or the payload of the first one is empty, the result
  has no images and the parse error, which ends with the status code; when the payload
  fails base64 decoding or the bytes fail to open as an image, the result has no images
  and the decoding error with the decoder's message (the status code is not part of
  that message).
\<close>

theorem event_stream_failures:
  assumes issued: "requests_issued (snd (call_novelai_api E api_key prompt neg_prompt width
                     height steps scale sampler seed director_json_str (Response r))) \<noteq> []"
    and ok: "is_2xx r"
    and stream: "is_event_stream r"
  shows "(\<not> truthy (data_payload r) \<longrightarrow>
            fst (call_novelai_api E api_key prompt neg_prompt width height steps scale sampler
                   seed director_json_str (Response r))
            = Inr (None, ''Error: Could not parse image data from NovelAI stream. Status: ''
                         @ str_int (status_code r))
          \<and> py_in (str_int (status_code r))
               (''Error: Could not parse image data from NovelAI stream. Status: ''
                @ str_int (status_code r)))
       \<and> (\<forall>payload err. data_payload r = Some payload \<longrightarrow> payload \<noteq> [] \<longrightarrow>
            (b64decode E payload = Inl err
             \<or> (\<exists>img_data. b64decode E payload = Inr img_data
                            \<and> image_open E img_data = Inl err)) \<longrightarrow>
            fst (call_novelai_api E api_key prompt neg_prompt width height steps scale sampler
                   seed director_json_str (Response r))
            = Inr (None, ''Error decoding image data from NovelAI: '' @ err))"
proof -
  have res: "fst (call_novelai_api E api_key prompt neg_prompt width height steps scale sampler
                seed director_json_str (Response r)) = Inr (fst (event_stream E seed r))"
    using issued ok stream
    by (simp add: result_call_response not_raises_2xx process_response_event_stream)
  have "\<not> truthy (data_payload r) \<Longrightarrow>
          fst (event_stream E seed r)
          = (None, ''Error: Could not parse image data from NovelAI stream. Status: ''
                   @ str_int (status_code r))"
    by (simp add: event_stream_def data_payload_def)
  moreover have "data_payload r = Some payload \<Longrightarrow> payload \<noteq> [] \<Longrightarrow>
           b64decode E payload = Inl err
             \<or> (\<exists>img_data. b64decode E payload = Inr img_data
                            \<and> image_open E img_data = Inl err) \<Longrightarrow>
           fst (event_stream E seed r)
           = (None, ''Error decoding image data from NovelAI: '' @ err)" for payload err
    by (auto simp: event_stream_def data_payload_def truthy_def)
  ultimately show ?thesis
    using py_in_suffix [of "str_int (status_code r)"
            "''Error: Could not parse image data from NovelAI stream. Status: ''"]
    unfolding res by blast
qed

text \<open>A stream without a \<open>data:\<close> line, and one whose payload has incorrect padding.\<close>

theorem event_stream_failures_witness:
  "requests_issued (snd (demo_call (Some ''key'') (NInt (- 1)) None
      (Response no_data_response))) \<noteq> []
   \<and> is_2xx no_data_response \<and> is_event_stream no_data_response
   \<and> \<not> truthy (data_payload no_data_response)
   \<and> fst (demo_call (Some ''key'') (NInt (- 1)) None (Response no_data_response))
     = Inr (None, ''Error: Could not parse image data from NovelAI stream. Status: 200'')
   \<and> requests_issued (snd (demo_call (Some ''key'') (NInt (- 1)) None
        (Response bad_stream_response))) \<noteq> []
   \<and> is_2xx bad_stream_response \<and> is_event_stream bad_stream_response
   \<and> data_payload bad_stream_response = Some ''abc''
   \<and> b64decode demo_env ''abc'' = Inl ''Incorrect padding''
   \<and> fst (demo_call (Some ''key'') (NInt (- 1)) None (Response bad_stream_response))
     = Inr (None, ''Error decoding image data from NovelAI: Incorrect padding'')"
proof -
  have a1: "requests_issued (snd (demo_call (Some ''key'') (NInt (- 1)) None
              (Response no_data_response))) \<noteq> []"
    by code_simp
  have a2: "is_2xx no_data_response" and a3: "is_event_stream no_data_response"
    by code_simp+
  have a4: "\<not> truthy (data_payload no_data_response)"
    by code_simp
  have a5: "str_int (status_code no_data_response) = ''200''"
    by code_simp
  have b1: "requests_issued (snd (demo_call (Some ''key'') (NInt (- 1)) None
              (Response bad_stream_response))) \<noteq> []"
    by code_simp
  have b2: "is_2xx bad_stream_response" and b3: "is_event_stream bad_stream_response"
    by code_simp+
  have b4: "data_payload bad_stream_response = Some ''abc''"
    by code_simp
  have b5: "b64decode demo_env ''abc'' = Inl ''Incorrect padding''"
    by code_simp
  from event_stream_failures [OF a1 [unfolded demo_call_def] a2 a3]
       event_stream_failures [OF b1 [unfolded demo_call_def] b2 b3]
  show ?thesis
    using a1 a2 a3 a4 a5 b1 b2 b3 b4 b5 by (simp add: demo_call_def)
qed

text \<open>
  The decoding error for the payload \<open>abc\<close> of a response with status 200 does not
  contain the status code.
\<close>

theorem decode_error_counterexample:
  "requests_issued (snd (demo_call (Some ''key'') (NInt (- 1)) None
      (Response bad_stream_response))) \<noteq> []
   \<and> is_2xx bad_stream_response \<and> is_event_stream bad_stream_response
   \<and> data_payload bad_stream_response = Some ''abc''
   \<and> b64decode demo_env ''abc'' = Inl ''Incorrect padding''
   \<and> fst (demo_call (Some ''key'') (NInt (- 1)) None (Response bad_stream_response))
     = Inr (None, ''Error decoding image data from NovelAI: Incorrect padding'')
   \<and> \<not> py_in (str_int (status_code bad_stream_response))
          ''Error decoding image data from NovelAI: Incorrect padding''"
  by code_simp




text \<open>
  C8, amended. For a response with a status from 200 to 299: with a zip content type the
  result is the zip "not implemented" error; when it is treated as JSON (a JSON content
  type, no zip content type, not an event stream) the result is the JSON
  "not implemented" error if the body decodes, and the decoding-failure error with the
  status code and the first 200 characters of the body if it does not; with none of the
  three kinds the result is the unexpected-content-type error. All have no images, and
  the two "not implemented" texts differ from each other and from every
  unexpected-content-type text.
\<close>

theorem unsupported_formats:
  assumes issued: "requests_issued (snd (call_novelai_api E api_key prompt neg_prompt width
                     height steps scale sampler seed director_json_str (Response r))) \<noteq> []"
    and ok: "is_2xx r"
  shows "(is_zip r \<longrightarrow>
            fst (call_novelai_api E api_key prompt neg_prompt width height steps scale sampler
                   seed director_json_str (Response r))
            = Inr (None, ''Error: Zip response handling not implemented yet.''))
       \<and> (is_json r \<longrightarrow>
            (\<forall>v. resp_json r = Inr v \<longrightarrow>
               fst (call_novelai_api E api_key prompt neg_prompt width height steps scale sampler
                      seed director_json_str (Response r))
               = Inr (None, ''Error: JSON response handling not implemented yet (unknown structure).''))
          \<and> (\<forall>e. resp_json r = Inl e \<longrightarrow>
               fst (call_novelai_api E api_key prompt neg_prompt width height steps scale sampler
                      seed director_json_str (Response r))
               = Inr (None, ''Error: Failed to decode JSON response. Status: ''
                            @ str_int (status_code r) @ '', Content: ''
                            @ take 200 (resp_text r))))
       \<and> (\<not> is_zip r \<and> \<not> is_event_stream r \<and> \<not> is_json r \<longrightarrow>
            fst (call_novelai_api E api_key prompt neg_prompt width height steps scale sampler
                   seed director_json_str (Response r))
            = Inr (None, ''Error: Unexpected Content-Type from NovelAI: '' @ declared_type r
                         @ ''. Status: '' @ str_int (status_code r)))
       \<and> ''Error: Zip response handling not implemented yet.''
           \<noteq> ''Error: JSON response handling not implemented yet (unknown structure).''
       \<and> (\<forall>ct st. ''Error: Unexpected Content-Type from NovelAI: '' @ ct @ ''. Status: '' @ st
                     \<noteq> ''Error: Zip response handling not implemented yet.''
                 \<and> ''Error: Unexpected Content-Type from NovelAI: '' @ ct @ ''. Status: '' @ st
                     \<noteq> ''Error: JSON response handling not implemented yet (unknown structure).'')"
proof -
  have res: "fst (call_novelai_api E api_key prompt neg_prompt width height steps scale sampler
                seed director_json_str (Response r)) = Inr (fst (process_response E seed r))"
    using issued ok by (simp add: result_call_response not_raises_2xx)
  have zip: "is_zip r \<Longrightarrow> fst (process_response E seed r)
               = (None, ''Error: Zip response handling not implemented yet.'')"
    by (simp add: process_response_def is_zip_def declared_type_def)
  have json: "is_json r \<Longrightarrow> resp_json r = Inr v \<Longrightarrow> fst (process_response E seed r)
               = (None, ''Error: JSON response handling not implemented yet (unknown structure).'')"
    for v
    by (auto simp: process_response_def Let_def is_json_def is_event_stream_def is_zip_def
          declared_type_def)
  have undecoded: "is_json r \<Longrightarrow> resp_json r = Inl e \<Longrightarrow> fst (process_response E seed r)
               = (None, ''Error: Failed to decode JSON response. Status: ''
                        @ str_int (status_code r) @ '', Content: '' @ take 200 (resp_text r))"
    for e
    by (auto simp: process_response_def Let_def is_json_def is_event_stream_def is_zip_def
          declared_type_def)
  have other: "\<not> is_zip r \<Longrightarrow> \<not> is_event_stream r \<Longrightarrow> \<not> is_json r \<Longrightarrow>
               fst (process_response E seed r)
               = (None, ''Error: Unexpected Content-Type from NovelAI: '' @ declared_type r
                        @ ''. Status: '' @ str_int (status_code r))"
    by (auto simp: process_response_def Let_def is_json_def is_event_stream_def is_zip_def
          declared_type_def)
  show ?thesis
    unfolding res using zip json undecoded other by simp
qed

text \<open>A zip response and a JSON response whose body decodes.\<close>

theorem unsupported_formats_witness:
  "requests_issued (snd (demo_call (Some ''key'') (NInt (- 1)) None
      (Response (zip_response 200)))) \<noteq> []
   \<and> is_2xx (zip_response 200) \<and> is_zip (zip_response 200)
   \<and> fst (demo_call (Some ''key'') (NInt (- 1)) None (Response (zip_response 200)))
     = Inr (None, ''Error: Zip response handling not implemented yet.'')
   \<and> requests_issued (snd (demo_call (Some ''key'') (NInt (- 1)) None
        (Response (json_response foo_blob (Inr (PDict [(''foo'', PInt 1)])))))) \<noteq> []
   \<and> is_2xx (json_response foo_blob (Inr (PDict [(''foo'', PInt 1)])))
   \<and> is_json (json_response foo_blob (Inr (PDict [(''foo'', PInt 1)])))
   \<and> fst (demo_call (Some ''key'') (NInt (- 1)) None
             (Response (json_response foo_blob (Inr (PDict [(''foo'', PInt 1)])))))
     = Inr (None, ''Error: JSON response handling not implemented yet (unknown structure).'')"
proof -
  let ?j = "json_response foo_blob (Inr (PDict [(''foo'', PInt 1)]))"
  have a1: "requests_issued (snd (demo_call (Some ''key'') (NInt (- 1)) None
              (Response (zip_response 200)))) \<noteq> []"
    by code_simp
  have a2: "is_2xx (zip_response 200)" and a3: "is_zip (zip_response 200)"
    by code_simp+
  have b1: "requests_issued (snd (demo_call (Some ''key'') (NInt (- 1)) None (Response ?j)))
            \<noteq> []"
    by code_simp
  have b2: "is_2xx ?j" and b3: "is_json ?j"
    by code_simp+
  have b4: "resp_json ?j = Inr (PDict [(''foo'', PInt 1)])"
    by code_simp
  from unsupported_formats [OF a1 [unfolded demo_call_def] a2]
       unsupported_formats [OF b1 [unfolded demo_call_def] b2]
  show ?thesis
    using a1 a2 a3 b1 b2 b3 b4 by (simp add: demo_call_def)
qed

text \<open>
  A JSON response whose body does not decode gets the decoding-failure error, which is
  not a "not implemented" error.
\<close>

theorem json_body_counterexample:
  "requests_issued (snd (demo_call (Some ''key'') (NInt (- 1)) None
      (Response (json_response ''not json'' no_json)))) \<noteq> []
   \<and> is_2xx (json_response ''not json'' no_json)
   \<and> is_json (json_response ''not json'' no_json)
   \<and> fst (demo_call (Some ''key'') (NInt (- 1)) None
             (Response (json_response ''not json'' no_json)))
     = Inr (None, ''Error: Failed to decode JSON response. Status: 200, Content: not json'')
   \<and> \<not> py_in ''not implemented''
          ''Error: Failed to decode JSON response. Status: 200, Content: not json''"
  by code_simp



text \<open>
  C10. \<open>run\<close> leaves the processing object as it was when the script is disabled and
  when the helper returns images; when the helper returns no images, \<open>run\<close> returns the
  empty result with the failure text and has stored the error text under
  \<open>NovelAI Error\<close> in \<open>extra_generation_params\<close>.
\<close>

theorem run_frame:
  "(\<not> enabled \<longrightarrow>
      fst (snd (run E p enabled api_key steps sampler scale seed director_tools_json net)) = p)
   \<and> (enabled \<longrightarrow>
        (\<forall>msg. fst (call_novelai_api E api_key (p_prompt p) (p_negative_prompt p) (p_width p)
                      (p_height p) steps scale sampler seed director_tools_json net)
                = Inr (None, msg) \<longrightarrow>
           fst (run E p enabled api_key steps sampler scale seed director_tools_json net)
           = Inr \<lparr>proc_images = [], proc_seed = p_seed p,
                  proc_info = ''NovelAI Generation Failed: '' @ msg\<rparr>
         \<and> fst (snd (run E p enabled api_key steps sampler scale seed director_tools_json net))
           = p\<lparr>extra_generation_params :=
                 (extra_generation_params p)(''NovelAI Error'' \<mapsto> msg)\<rparr>)
      \<and> (\<forall>imgs info. fst (call_novelai_api E api_key (p_prompt p) (p_negative_prompt p)
                             (p_width p) (p_height p) steps scale sampler seed
                             director_tools_json net)
                       = Inr (Some imgs, info) \<longrightarrow>
           (\<exists>s. fst (run E p enabled api_key steps sampler scale seed director_tools_json net)
                = Inr \<lparr>proc_images = imgs, proc_seed = s, proc_info = info\<rparr>)
         \<and> fst (snd (run E p enabled api_key steps sampler scale seed director_tools_json net))
           = p))"
proof -
  have off: "\<not> enabled \<Longrightarrow>
      fst (snd (run E p enabled api_key steps sampler scale seed director_tools_json net)) = p"
    by (simp add: run_def)
  have failed: "enabled \<Longrightarrow>
      fst (call_novelai_api E api_key (p_prompt p) (p_negative_prompt p) (p_width p)
             (p_height p) steps scale sampler seed director_tools_json net)
      = Inr (None, msg) \<Longrightarrow>
      fst (run E p enabled api_key steps sampler scale seed director_tools_json net)
      = Inr \<lparr>proc_images = [], proc_seed = p_seed p,
             proc_info = ''NovelAI Generation Failed: '' @ msg\<rparr>
      \<and> fst (snd (run E p enabled api_key steps sampler scale seed director_tools_json net))
        = p\<lparr>extra_generation_params :=
              (extra_generation_params p)(''NovelAI Error'' \<mapsto> msg)\<rparr>" for msg
    by (simp add: run_def Let_def split_beta)
  have succeeded:
     "(\<exists>s. fst (run E p enabled api_key steps sampler scale seed director_tools_json net)
           = Inr \<lparr>proc_images = imgs, proc_seed = s, proc_info = info\<rparr>)
      \<and> fst (snd (run E p enabled api_key steps sampler scale seed director_tools_json net))
        = p"
    if en: enabled
      and c: "fst (call_novelai_api E api_key (p_prompt p) (p_negative_prompt p) (p_width p)
                     (p_height p) steps scale sampler seed director_tools_json net)
              = Inr (Some imgs, info)"
    for imgs info
  proof -
    from call_success_shape [OF c] obtain img i where "imgs = [img]" "py_int seed = Inr i"
      by blast
    with en c show ?thesis
      by (simp add: run_def Let_def split_beta)
  qed
  show ?thesis
    using off failed succeeded by blast
qed

text \<open>A call without a key, a call that succeeds, and a disabled script.\<close>

theorem run_frame_witness:
  "fst (call_novelai_api demo_env (Some []) (p_prompt demo_p) (p_negative_prompt demo_p)
          (p_width demo_p) (p_height demo_p) (NInt 28) (NFloat six) ''k_euler'' (NInt (- 1))
          None (Response stream_response))
   = Inr (None, ''Error: NovelAI API Key is missing.'')
   \<and> fst (snd (run demo_env demo_p True (Some []) (NInt 28) ''k_euler'' (NFloat six)
                 (NInt (- 1)) None (Response stream_response)))
     = demo_p\<lparr>extra_generation_params :=
                (extra_generation_params demo_p)
                  (''NovelAI Error'' \<mapsto> ''Error: NovelAI API Key is missing.'')\<rparr>
   \<and> fst (call_novelai_api demo_env (Some ''key'') (p_prompt demo_p) (p_negative_prompt demo_p)
            (p_width demo_p) (p_height demo_p) (NInt 28) (NFloat six) ''k_euler'' (NInt (- 1))
            None (Response stream_response))
     = Inr (Some [ImageFile ppm_bytes],
            ''Successfully generated image via NovelAI.'' @ [CHR 0x0A]
            @ ''Seed: -1 (API might use/return a different one)''
            @ [CHR 0x0A] @ ''(Check console logs for request details)'')
   \<and> fst (snd (run demo_env demo_p True (Some ''key'') (NInt 28) ''k_euler'' (NFloat six)
                 (NInt (- 1)) None (Response stream_response)))
     = demo_p
   \<and> fst (snd (run demo_env demo_p False (Some ''key'') (NInt 28) ''k_euler'' (NFloat six)
                 (NInt (- 1)) None (Response stream_response)))
     = demo_p"
proof -
  have failed:
    "fst (call_novelai_api demo_env (Some []) (p_prompt demo_p) (p_negative_prompt demo_p)
            (p_width demo_p) (p_height demo_p) (NInt 28) (NFloat six) ''k_euler'' (NInt (- 1))
            None (Response stream_response))
     = Inr (None, ''Error: NovelAI API Key is missing.'')"
    by code_simp
  have succeeded:
    "fst (call_novelai_api demo_env (Some ''key'') (p_prompt demo_p) (p_negative_prompt demo_p)
            (p_width demo_p) (p_height demo_p) (NInt 28) (NFloat six) ''k_euler'' (NInt (- 1))
            None (Response stream_response))
     = Inr (Some [ImageFile ppm_bytes],
            ''Successfully generated image via NovelAI.'' @ [CHR 0x0A]
            @ ''Seed: -1 (API might use/return a different one)''
            @ [CHR 0x0A] @ ''(Check console logs for request details)'')"
    by code_simp
  from run_frame [where enabled = True and E = demo_env and p = demo_p and api_key = "Some []"
         and steps = "NInt 28" and sampler = "''k_euler''" and scale = "NFloat six"
         and seed = "NInt (- 1)" and director_tools_json = None
         and net = "Response stream_response"]
       failed
  have a: "fst (snd (run demo_env demo_p True (Some []) (NInt 28) ''k_euler'' (NFloat six)
                 (NInt (- 1)) None (Response stream_response)))
     = demo_p\<lparr>extra_generation_params :=
                (extra_generation_params demo_p)
                  (''NovelAI Error'' \<mapsto> ''Error: NovelAI API Key is missing.'')\<rparr>"
    by blast
  from run_frame [where enabled = True and E = demo_env and p = demo_p
         and api_key = "Some ''key''"
         and steps = "NInt 28" and sampler = "''k_euler''" and scale = "NFloat six"
         and seed = "NInt (- 1)" and director_tools_json = None
         and net = "Response stream_response"]
       succeeded
  have b: "fst (snd (run demo_env demo_p True (Some ''key'') (NInt 28) ''k_euler'' (NFloat six)
                 (NInt (- 1)) None (Response stream_response))) = demo_p"
    by blast
  from run_frame [where enabled = False and E = demo_env and p = demo_p
         and api_key = "Some ''key''"
         and steps = "NInt 28" and sampler = "''k_euler''" and scale = "NFloat six"
         and seed = "NInt (- 1)" and director_tools_json = None
         and net = "Response stream_response"]
  have c: "fst (snd (run demo_env demo_p False (Some ''key'') (NInt 28) ''k_euler'' (NFloat six)
                 (NInt (- 1)) None (Response stream_response))) = demo_p"
    by blast
  from failed succeeded a b c show ?thesis
    by blast
qed

end
